theory Spec2Isabelle
  imports Complex_Main "HOL-Library.AList" "HOL-Library.Word"
begin

section \<open>Values exchanged with clients and upstream services\<close>

text \<open>
  Request bodies, response bodies and upstream payloads are JSON documents. An object is
  an association list in the order of its keys; an absent key is a key that
  \<open>map_of\<close> does not find (JavaScript's \<open>undefined\<close>). Numbers are the exact
  decimal values written in the document; the program only copies and compares them.
\<close>

datatype json =
    JNull
  | JBool bool
  | JNum real
  | JStr string
  | JArr "json list"
  | JObj "(string \<times> json) list"

type_synonym byte = "8 word"

text \<open>JavaScript truthiness, as \<open>a || b\<close> and \<open>c ? a : b\<close> test it.\<close>

fun truthy :: "json \<Rightarrow> bool" where
  "truthy JNull = False"
| "truthy (JBool b) = b"
| "truthy (JNum n) = (n \<noteq> 0)"
| "truthy (JStr s) = (s \<noteq> [])"
| "truthy (JArr xs) = True"
| "truthy (JObj kvs) = True"

text \<open>
  \<open>a || d\<close> where \<open>a\<close> is a string that may be absent and \<open>d\<close> a string: the
  absent value and the empty string are both falsy.
\<close>

definition or_else :: "string option \<Rightarrow> string \<Rightarrow> string" where
  "or_else a d = (case a of None \<Rightarrow> d | Some s \<Rightarrow> if s = [] then d else s)"

subsection \<open>types/index.ts\<close>

record ParsedReceiptItem =
  name :: string
  quantity :: real
  price :: real

record ParsedReceipt =
  items :: "ParsedReceiptItem list"
  receipt_total :: real
  currency :: "string option"
  date :: "string option"
  merchant :: "string option"

record CreatedBill =
  bill_id :: real

text \<open>The JSON document of a record, as \<open>res.json\<close> serialises it: an absent optional
  field has no key.\<close>

definition optional_key :: "string \<Rightarrow> string option \<Rightarrow> (string \<times> json) list" where
  "optional_key k v = (case v of None \<Rightarrow> [] | Some s \<Rightarrow> [(k, JStr s)])"

definition json_of_item :: "ParsedReceiptItem \<Rightarrow> json" where
  "json_of_item item =
     JObj [(''name'', JStr (name item)), (''quantity'', JNum (quantity item)),
           (''price'', JNum (price item))]"

definition json_of_receipt :: "ParsedReceipt \<Rightarrow> json" where
  "json_of_receipt p =
     JObj ([(''items'', JArr (map json_of_item (items p))), (''total'', JNum (receipt_total p))]
           @ optional_key ''currency'' (currency p)
           @ optional_key ''date'' (date p)
           @ optional_key ''merchant'' (merchant p))"

definition json_of_created :: "CreatedBill \<Rightarrow> json" where
  "json_of_created c = JObj [(''id'', JNum (bill_id c))]"

section \<open>The clock\<close>

text \<open>
  \<open>new Date()\<close> reads the current instant; the handler takes it as an argument. The
  instant is given by its UTC calendar fields, which is what \<open>toISOString\<close> prints:
  \<open>YYYY-MM-DDTHH:mm:ss.sssZ\<close>, the year with four digits from 0 to 9999 and with a
  sign and six digits outside.
\<close>

record Date =
  year :: int
  month :: nat
  day :: nat
  hours :: nat
  minutes :: nat
  seconds :: nat
  milliseconds :: nat

definition digit_char :: "nat \<Rightarrow> char" where
  "digit_char n = ''0123456789'' ! (n mod 10)"

fun digits :: "nat \<Rightarrow> nat \<Rightarrow> string" where
  "digits 0 n = []"
| "digits (Suc w) n = digits w (n div 10) @ [digit_char n]"

definition year_string :: "int \<Rightarrow> string" where
  "year_string y =
     (if 0 \<le> y \<and> y \<le> 9999 then digits 4 (nat y)
      else (if y < 0 then ''-'' else ''+'') @ digits 6 (nat \<bar>y\<bar>))"

definition toISOString :: "Date \<Rightarrow> string" where
  "toISOString d =
     year_string (year d) @ ''-'' @ digits 2 (month d) @ ''-'' @ digits 2 (day d) @ ''T''
     @ digits 2 (hours d) @ '':'' @ digits 2 (minutes d) @ '':'' @ digits 2 (seconds d)
     @ ''.'' @ digits 3 (milliseconds d) @ ''Z''"

text \<open>\<open>s.split('T')[0]\<close>: the part of \<open>s\<close> before its first \<open>T\<close>.\<close>

definition split_T_0 :: "string \<Rightarrow> string" where
  "split_T_0 s = takeWhile (\<lambda>c. c \<noteq> CHR ''T'') s"

section \<open>routes/billParser: the bill built from a parsed receipt\<close>

text \<open>
  The object literal \<open>billData\<close> of the handler of \<open>POST /create-bill-from-image\<close>,
  with the \<open>title\<close> field of the form (absent or a string), the receipt returned by the
  parser and the instant read by \<open>new Date()\<close>.
\<close>

definition title_of :: "string option \<Rightarrow> string" where
  "title_of body_title = or_else body_title ''Bill from receipt image''"

definition bill_item :: "ParsedReceiptItem \<Rightarrow> json" where
  "bill_item item =
     JObj [(''name'', JStr (name item)),
           (''description'', JStr ''''),
           (''amount'', JNum (price item)),
           (''quantity'', JNum (quantity item))]"

definition billData :: "string option \<Rightarrow> ParsedReceipt \<Rightarrow> Date \<Rightarrow> json" where
  "billData body_title parsedData now =
     JObj [(''title'', JStr (title_of body_title)),
           (''description'',
              JStr (''Created from receipt: '' @ or_else (merchant parsedData) ''Unknown merchant'')),
           (''due_date'', JStr (or_else (date parsedData) (split_T_0 (toISOString now)))),
           (''paid'', JBool False),
           (''items'', JArr (map bill_item (items parsedData)))]"

section \<open>utils/serviceClient: upstream failures\<close>

text \<open>
  What a call through the HTTP client throws. An error of the client itself
  (\<open>axios.isAxiosError\<close>) carries the upstream's response when one arrived, and the
  request when one was sent; it is an \<open>Error\<close>, so it has a message. Anything else
  thrown is an \<open>Error\<close> with its message, or a value that is not an \<open>Error\<close>, given
  with its rendering by \<open>String(...)\<close>.
\<close>

record AxiosResponse =
  status :: int
  data :: json

datatype thrown =
    AxiosError (response: "AxiosResponse option") (request: bool) (error_message: string)
  | OtherError string
  | NotAnError string

record ServiceError =
  statusCode :: int
  message :: json
  details :: json

text \<open>Reading a property of a value: only an object has own keys.\<close>

fun get_property :: "json \<Rightarrow> string \<Rightarrow> json option" where
  "get_property (JObj kvs) k = map_of kvs k"
| "get_property v k = None"

text \<open>\<open>data && data.error ? data.error : 'Service error'\<close>\<close>

definition error_field_or_default :: "json \<Rightarrow> json" where
  "error_field_or_default d =
     (if truthy d
      then (case get_property d ''error'' of
              None \<Rightarrow> JStr ''Service error''
            | Some e \<Rightarrow> if truthy e then e else JStr ''Service error'')
      else JStr ''Service error'')"

fun handleServiceError :: "thrown \<Rightarrow> ServiceError" where
  "handleServiceError (AxiosError (Some r) req msg) =
     \<lparr>statusCode = status r, message = error_field_or_default (data r), details = data r\<rparr>"
| "handleServiceError (AxiosError None True msg) =
     \<lparr>statusCode = 503, message = JStr ''Service unavailable'',
      details = JStr ''No response received from service''\<rparr>"
| "handleServiceError (AxiosError None False msg) =
     \<lparr>statusCode = 500, message = JStr ''Error connecting to service'', details = JStr msg\<rparr>"
| "handleServiceError (OtherError msg) =
     \<lparr>statusCode = 500, message = JStr ''Error connecting to service'', details = JStr msg\<rparr>"
| "handleServiceError (NotAnError str) =
     \<lparr>statusCode = 500, message = JStr ''Error connecting to service'', details = JStr str\<rparr>"

subsection \<open>The two upstream services and the calls made to them\<close>

text \<open>
  The upstream services answer each request with a response body or make the client
  throw. Success bodies have the shapes declared in types/index.ts. Every call a handler
  makes is recorded, in order.
\<close>

record upstream =
  get_bill :: "string \<Rightarrow> thrown + json"
  post_bill :: "json \<Rightarrow> thrown + CreatedBill"
  put_bill :: "string \<Rightarrow> json \<Rightarrow> thrown + json"
  delete_bill :: "string \<Rightarrow> thrown + json"
  post_parse_bill :: "byte list \<Rightarrow> string \<Rightarrow> thrown + ParsedReceipt"

datatype call =
    GetBillById string
  | CreateBill json
  | UpdateBill string json
  | DeleteBill string
  | ParseBillImage "byte list" string

text \<open>\<open>try { return (await client.request(...)).data } catch (error) { throw handleServiceError(error) }\<close>\<close>

definition normalized :: "thrown + 'a \<Rightarrow> ServiceError + 'a" where
  "normalized r = (case r of Inl t \<Rightarrow> Inl (handleServiceError t) | Inr d \<Rightarrow> Inr d)"

definition getBillById :: "upstream \<Rightarrow> string \<Rightarrow> ServiceError + json" where
  "getBillById up bid = normalized (get_bill up bid)"

definition createBill :: "upstream \<Rightarrow> json \<Rightarrow> ServiceError + CreatedBill" where
  "createBill up bill = normalized (post_bill up bill)"

definition updateBill :: "upstream \<Rightarrow> string \<Rightarrow> json \<Rightarrow> ServiceError + json" where
  "updateBill up bid bill = normalized (put_bill up bid bill)"

definition deleteBill :: "upstream \<Rightarrow> string \<Rightarrow> ServiceError + json" where
  "deleteBill up bid = normalized (delete_bill up bid)"

definition parseBillImage :: "upstream \<Rightarrow> byte list \<Rightarrow> string \<Rightarrow> ServiceError + ParsedReceipt" where
  "parseBillImage up imageBuffer filename = normalized (post_parse_bill up imageBuffer filename)"

section \<open>index: responses and the error handling middleware\<close>

record response =
  res_status :: int
  res_json :: json

text \<open>
  What reaches the error handling middleware through \<open>next(err)\<close>: a normalized
  service error, or an \<open>Error\<close> that has a message and no \<open>statusCode\<close>.
\<close>

datatype app_error =
    FromService ServiceError
  | PlainError string

text \<open>\<open>res.status(err.statusCode || 500).json({ error: err.message || 'Internal Server Error' })\<close>\<close>

fun error_middleware :: "app_error \<Rightarrow> response" where
  "error_middleware (FromService e) =
     \<lparr>res_status = (if statusCode e \<noteq> 0 then statusCode e else 500),
      res_json = JObj [(''error'', if truthy (message e) then message e
                                  else JStr ''Internal Server Error'')]\<rparr>"
| "error_middleware (PlainError msg) =
     \<lparr>res_status = 500,
      res_json = JObj [(''error'', JStr (if msg \<noteq> [] then msg else ''Internal Server Error''))]\<rparr>"

section \<open>middleware/validation: the schema library\<close>

text \<open>
  The schemas are values built with the schema library's combinators, and
  \<open>schema.validate\<close> interprets them. The library is not part of the repository; it
  is modelled from its documented behaviour under its default options: conversion is on,
  validation stops at the first violation (\<open>abortEarly\<close>), keys that the schema of an
  object does not name are not allowed, a default is put in the value that
  \<open>validate\<close> returns, and the input is never modified. Two things the library does are
  left as parameters, since they are its own and differ between its versions: the text of
  the message of a violation, and the conversion of a string given where a number, a
  boolean, an array or an object is expected.
\<close>

datatype base_type = TString | TNumber | TBoolean | TArray | TObject

datatype rule = Pattern "string \<Rightarrow> bool" | Integer | Min real

datatype joi =
  Schema (base: base_type) (is_required: bool) (allowed: "json list")
         (default_value: "json option") (rules: "rule list")
         (item_schema: "joi option") (children: "(string \<times> joi) list")

definition joi_string :: joi where
  "joi_string = Schema TString False [] None [] None []"

definition joi_number :: joi where
  "joi_number = Schema TNumber False [] None [] None []"

definition joi_boolean :: joi where
  "joi_boolean = Schema TBoolean False [] None [] None []"

definition joi_array_items :: "joi \<Rightarrow> joi" where
  "joi_array_items s = Schema TArray False [] None [] (Some s) []"

definition joi_object :: "(string \<times> joi) list \<Rightarrow> joi" where
  "joi_object ks = Schema TObject False [] None [] None ks"

fun joi_required :: "joi \<Rightarrow> joi" where
  "joi_required (Schema T req al dv rs it ks) = Schema T True al dv rs it ks"

fun joi_allow :: "json list \<Rightarrow> joi \<Rightarrow> joi" where
  "joi_allow vs (Schema T req al dv rs it ks) = Schema T req (al @ vs) dv rs it ks"

fun joi_default :: "json \<Rightarrow> joi \<Rightarrow> joi" where
  "joi_default v (Schema T req al dv rs it ks) = Schema T req al (Some v) rs it ks"

fun add_rule :: "rule \<Rightarrow> joi \<Rightarrow> joi" where
  "add_rule r (Schema T req al dv rs it ks) = Schema T req al dv (rs @ [r]) it ks"

definition joi_pattern :: "(string \<Rightarrow> bool) \<Rightarrow> joi \<Rightarrow> joi" where
  "joi_pattern f = add_rule (Pattern f)"

definition joi_integer :: "joi \<Rightarrow> joi" where
  "joi_integer = add_rule Integer"

definition joi_min :: "real \<Rightarrow> joi \<Rightarrow> joi" where
  "joi_min m = add_rule (Min m)"

subsection \<open>Violations\<close>

datatype error_code =
    any_required | string_base | string_empty | string_pattern_base
  | number_base | number_unsafe | number_integer | number_min
  | boolean_base | array_base | object_base | object_unknown

datatype path_elem = Key string | Index nat

datatype detail =
  Detail (path: "path_elem list") (code: error_code) (offending: "json option")

datatype coerced = Unchanged | Converted json | Failed error_code

record joi_lib =
  render :: "detail \<Rightarrow> string"
  coerce :: "base_type \<Rightarrow> string \<Rightarrow> coerced"

datatype outcome = Err detail | Ok "json option"

subsection \<open>Interpreting a schema\<close>

definition apply_coerce :: "joi_lib \<Rightarrow> base_type \<Rightarrow> json \<Rightarrow> error_code + json" where
  "apply_coerce lib T x =
     (case x of
        JStr s \<Rightarrow>
          (if T = TString then Inr x
           else (case coerce lib T s of
                   Unchanged \<Rightarrow> Inr x
                 | Converted y \<Rightarrow> Inr y
                 | Failed c \<Rightarrow> Inl c))
      | _ \<Rightarrow> Inr x)"

fun check_base :: "base_type \<Rightarrow> json \<Rightarrow> error_code option" where
  "check_base TString (JStr s) = (if s = [] then Some string_empty else None)"
| "check_base TString v = Some string_base"
| "check_base TNumber (JNum n) =
     (if \<bar>n\<bar> > 9007199254740991 then Some number_unsafe else None)"
| "check_base TNumber v = Some number_base"
| "check_base TBoolean (JBool b) = None"
| "check_base TBoolean v = Some boolean_base"
| "check_base TArray (JArr xs) = None"
| "check_base TArray v = Some array_base"
| "check_base TObject (JObj kvs) = None"
| "check_base TObject v = Some object_base"

fun check_rules :: "path_elem list \<Rightarrow> rule list \<Rightarrow> json \<Rightarrow> detail option" where
  "check_rules p [] v = None"
| "check_rules p (Pattern f # rs) (JStr s) =
     (if f s then check_rules p rs (JStr s)
      else Some (Detail p string_pattern_base (Some (JStr s))))"
| "check_rules p (Integer # rs) (JNum n) =
     (if of_int \<lfloor>n\<rfloor> = n then check_rules p rs (JNum n)
      else Some (Detail p number_integer (Some (JNum n))))"
| "check_rules p (Min m # rs) (JNum n) =
     (if m \<le> n then check_rules p rs (JNum n)
      else Some (Detail p number_min (Some (JNum n))))"
| "check_rules p (r # rs) v = check_rules p rs v"

text \<open>The items of an array, in order: the first violation ends the validation.\<close>

fun sequence_items :: "outcome list \<Rightarrow> detail + json list" where
  "sequence_items [] = Inr []"
| "sequence_items (Err d # rs) = Inl d"
| "sequence_items (Ok v # rs) =
     (case sequence_items rs of
        Inl d \<Rightarrow> Inl d
      | Inr vs \<Rightarrow> Inr ((case v of None \<Rightarrow> [] | Some y \<Rightarrow> [y]) @ vs))"

text \<open>
  The keys of an object schema, in the order of the schema, on a copy of the object:
  the first violation ends the validation; a converted or default value is stored under
  its key.
\<close>

fun apply_children :: "(string \<times> json) list \<Rightarrow> (string \<times> outcome) list \<Rightarrow> detail + (string \<times> json) list" where
  "apply_children obj [] = Inr obj"
| "apply_children obj ((k, Err d) # rs) = Inl d"
| "apply_children obj ((k, Ok None) # rs) = apply_children (AList.delete k obj) rs"
| "apply_children obj ((k, Ok (Some v)) # rs) = apply_children (AList.update k v obj) rs"

definition unknown_keys :: "(string \<times> joi) list \<Rightarrow> (string \<times> json) list \<Rightarrow> string list" where
  "unknown_keys ks kvs = filter (\<lambda>k. k \<notin> set (map fst ks)) (map fst kvs)"

definition object_result ::
  "path_elem list \<Rightarrow> (string \<times> joi) list \<Rightarrow> (string \<times> json) list \<Rightarrow> (string \<times> outcome) list \<Rightarrow> outcome" where
  "object_result p ks kvs results =
     (case apply_children kvs results of
        Inl d \<Rightarrow> Err d
      | Inr obj \<Rightarrow>
          (case unknown_keys ks kvs of
             [] \<Rightarrow> Ok (Some (JObj obj))
           | k # rest \<Rightarrow> Err (Detail (p @ [Key k]) object_unknown (map_of kvs k))))"

fun validate_at :: "joi_lib \<Rightarrow> path_elem list \<Rightarrow> joi \<Rightarrow> json option \<Rightarrow> outcome" where
  "validate_at lib p (Schema T req al dv rs it ks) None =
     (if req then Err (Detail p any_required None) else Ok dv)"
| "validate_at lib p (Schema T req al dv rs it ks) (Some x0) =
     (case apply_coerce lib T x0 of
        Inl c \<Rightarrow> Err (Detail p c (Some x0))
      | Inr x \<Rightarrow>
          if x \<in> set al then Ok (Some x)
          else (case check_base T x of
                  Some c \<Rightarrow> Err (Detail p c (Some x))
                | None \<Rightarrow>
                    (case check_rules p rs x of
                       Some d \<Rightarrow> Err d
                     | None \<Rightarrow>
                         (case x of
                            JArr xs \<Rightarrow>
                              (case it of
                                 None \<Rightarrow> Ok (Some x)
                               | Some s \<Rightarrow>
                                   (case sequence_items
                                           (map (\<lambda>iy. validate_at lib (p @ [Index (fst iy)]) s (Some (snd iy)))
                                                (enumerate 0 xs)) of
                                      Inl d \<Rightarrow> Err d
                                    | Inr ys \<Rightarrow> Ok (Some (JArr ys))))
                          | JObj kvs \<Rightarrow>
                              object_result p ks kvs
                                (map (\<lambda>ks1. (fst ks1,
                                        validate_at lib (p @ [Key (fst ks1)]) (snd ks1) (map_of kvs (fst ks1))))
                                     ks)
                          | _ \<Rightarrow> Ok (Some x)))))"

record validation_result =
  v_error :: "detail list option"
  v_value :: "json option"

definition schema_validate :: "joi_lib \<Rightarrow> joi \<Rightarrow> json \<Rightarrow> validation_result" where
  "schema_validate lib schema v =
     (case validate_at lib [] schema (Some v) of
        Err d \<Rightarrow> \<lparr>v_error = Some [d], v_value = Some v\<rparr>
      | Ok v' \<Rightarrow> \<lparr>v_error = None, v_value = v'\<rparr>)"

subsection \<open>The two schemas\<close>

definition is_digit :: "char \<Rightarrow> bool" where
  "is_digit c = (c \<in> set ''0123456789'')"

text \<open>The regular expression \<^verbatim>\<open>/^\d{4}-\d{2}-\d{2}$/\<close>.\<close>

definition due_date_pattern :: "string \<Rightarrow> bool" where
  "due_date_pattern s =
     (length s = 10
      \<and> list_all is_digit (take 4 s) \<and> s ! 4 = CHR ''-''
      \<and> list_all is_digit (take 2 (drop 5 s)) \<and> s ! 7 = CHR ''-''
      \<and> list_all is_digit (drop 8 s))"

definition billSchema :: joi where
  "billSchema = joi_object
     [(''title'', joi_required joi_string),
      (''description'', joi_allow [JStr [], JNull] joi_string),
      (''due_date'', joi_pattern due_date_pattern joi_string),
      (''paid'', joi_default (JBool False) joi_boolean),
      (''items'', joi_array_items (joi_object
         [(''name'', joi_required joi_string),
          (''description'', joi_allow [JStr [], JNull] joi_string),
          (''amount'', joi_min 0 (joi_required joi_number)),
          (''quantity'', joi_default (JNum 1) (joi_min 1 (joi_integer joi_number)))]))]"

definition idParamSchema :: joi where
  "idParamSchema = joi_object [(''id'', joi_required (joi_integer joi_number))]"

subsection \<open>The middleware\<close>

text \<open>\<open>details.map(detail => detail.message).join(', ')\<close>\<close>

fun join :: "string \<Rightarrow> string list \<Rightarrow> string" where
  "join sep [] = []"
| "join sep [x] = x"
| "join sep (x # y # ys) = x @ sep @ join sep (y # ys)"

text \<open>
  The middleware \<open>validate(schema, property)\<close> on the value of the property: it answers
  the request itself (a response), or passes it on (\<open>None\<close>, the call of \<open>next()\<close>).
  Only \<open>error\<close> is read from the result of \<open>schema.validate\<close>.
\<close>

definition validate :: "joi_lib \<Rightarrow> joi \<Rightarrow> json \<Rightarrow> response option" where
  "validate lib schema property =
     (case v_error (schema_validate lib schema property) of
        None \<Rightarrow> None
      | Some dets \<Rightarrow>
          Some \<lparr>res_status = 400,
                res_json = JObj [(''error'', JStr (join '', '' (map (render lib) dets)))]\<rparr>)"

section \<open>routes/bills\<close>

text \<open>
  A request to a bills route: the \<open>id\<close> segment of its path (a string; unused by
  \<open>POST /\<close>) and its parsed JSON body. A route gives the response and the upstream
  calls made, in order.
\<close>

record bills_request =
  params_id :: string
  body :: json

definition params :: "bills_request \<Rightarrow> json" where
  "params req = JObj [(''id'', JStr (params_id req))]"

definition bill_not_found :: response where
  "bill_not_found = \<lparr>res_status = 404, res_json = JObj [(''error'', JStr ''Bill not found'')]\<rparr>"

definition get_bill_route :: "joi_lib \<Rightarrow> upstream \<Rightarrow> bills_request \<Rightarrow> response \<times> call list" where
  "get_bill_route lib up req =
     (case validate lib idParamSchema (params req) of
        Some r \<Rightarrow> (r, [])
      | None \<Rightarrow>
          (case getBillById up (params_id req) of
             Inr bill \<Rightarrow> (\<lparr>res_status = 200, res_json = bill\<rparr>, [GetBillById (params_id req)])
           | Inl error \<Rightarrow>
               (if statusCode error = 404 then bill_not_found
                else error_middleware (FromService error),
                [GetBillById (params_id req)])))"

definition post_bill_route :: "joi_lib \<Rightarrow> upstream \<Rightarrow> bills_request \<Rightarrow> response \<times> call list" where
  "post_bill_route lib up req =
     (case validate lib billSchema (body req) of
        Some r \<Rightarrow> (r, [])
      | None \<Rightarrow>
          (case createBill up (body req) of
             Inr result \<Rightarrow>
               (\<lparr>res_status = 201, res_json = json_of_created result\<rparr>, [CreateBill (body req)])
           | Inl error \<Rightarrow> (error_middleware (FromService error), [CreateBill (body req)])))"

definition put_bill_route :: "joi_lib \<Rightarrow> upstream \<Rightarrow> bills_request \<Rightarrow> response \<times> call list" where
  "put_bill_route lib up req =
     (case validate lib idParamSchema (params req) of
        Some r \<Rightarrow> (r, [])
      | None \<Rightarrow>
          (case validate lib billSchema (body req) of
             Some r \<Rightarrow> (r, [])
           | None \<Rightarrow>
               (case updateBill up (params_id req) (body req) of
                  Inr result \<Rightarrow>
                    (\<lparr>res_status = 200, res_json = result\<rparr>,
                     [UpdateBill (params_id req) (body req)])
                | Inl error \<Rightarrow>
                    (if statusCode error = 404 then bill_not_found
                     else error_middleware (FromService error),
                     [UpdateBill (params_id req) (body req)]))))"

definition delete_bill_route :: "joi_lib \<Rightarrow> upstream \<Rightarrow> bills_request \<Rightarrow> response \<times> call list" where
  "delete_bill_route lib up req =
     (case validate lib idParamSchema (params req) of
        Some r \<Rightarrow> (r, [])
      | None \<Rightarrow>
          (case deleteBill up (params_id req) of
             Inr result \<Rightarrow> (\<lparr>res_status = 200, res_json = result\<rparr>, [DeleteBill (params_id req)])
           | Inl error \<Rightarrow>
               (if statusCode error = 404 then bill_not_found
                else error_middleware (FromService error),
                [DeleteBill (params_id req)])))"

section \<open>routes/billParser\<close>

text \<open>
  A request to a parser route: the file part of the multipart form, if the form has one,
  and its \<open>title\<close> field, if it has one. The upload middleware \<open>upload.single('image')\<close>
  is the upload library configured with memory storage, the size limit and the file
  filter of the source. The library is not part of the repository: it accepts one file,
  in the field named, asks the filter when the file part starts, and refuses the file
  when the bytes it has read reach the size limit; it hands each of its errors to
  \<open>next\<close>, and none of them has a \<open>statusCode\<close>.
\<close>

record upload =
  fieldname :: string
  originalname :: string
  mimetype :: string
  buffer :: "byte list"

record parser_request =
  file_part :: "upload option"
  title_field :: "string option"

definition startsWith :: "string \<Rightarrow> string \<Rightarrow> bool" where
  "startsWith s p = (take (length p) s = p)"

definition fileSize_limit :: nat where
  "fileSize_limit = 5 * 1024 * 1024"

definition fileFilter :: "upload \<Rightarrow> app_error option" where
  "fileFilter file =
     (if \<not> startsWith (mimetype file) ''image/''
      then Some (PlainError ''Only image files are allowed'')
      else None)"

definition upload_single :: "string \<Rightarrow> parser_request \<Rightarrow> app_error + upload option" where
  "upload_single field req =
     (case file_part req of
        None \<Rightarrow> Inr None
      | Some file \<Rightarrow>
          if fieldname file \<noteq> field then Inl (PlainError ''Unexpected field'')
          else (case fileFilter file of
                  Some err \<Rightarrow> Inl err
                | None \<Rightarrow>
                    if length (buffer file) \<ge> fileSize_limit
                    then Inl (PlainError ''File too large'')
                    else Inr (Some file)))"

definition no_image_file :: response where
  "no_image_file =
     \<lparr>res_status = 400, res_json = JObj [(''error'', JStr ''No image file provided'')]\<rparr>"

definition parse_bill_route :: "upstream \<Rightarrow> parser_request \<Rightarrow> response \<times> call list" where
  "parse_bill_route up req =
     (case upload_single ''image'' req of
        Inl err \<Rightarrow> (error_middleware err, [])
      | Inr None \<Rightarrow> (no_image_file, [])
      | Inr (Some file) \<Rightarrow>
          (case parseBillImage up (buffer file) (originalname file) of
             Inr parsedData \<Rightarrow>
               (\<lparr>res_status = 200, res_json = json_of_receipt parsedData\<rparr>,
                [ParseBillImage (buffer file) (originalname file)])
           | Inl error \<Rightarrow>
               (error_middleware (FromService error),
                [ParseBillImage (buffer file) (originalname file)])))"

definition create_bill_from_image_route ::
  "upstream \<Rightarrow> Date \<Rightarrow> parser_request \<Rightarrow> response \<times> call list" where
  "create_bill_from_image_route up now req =
     (case upload_single ''image'' req of
        Inl err \<Rightarrow> (error_middleware err, [])
      | Inr None \<Rightarrow> (no_image_file, [])
      | Inr (Some file) \<Rightarrow>
          (case parseBillImage up (buffer file) (originalname file) of
             Inl error \<Rightarrow>
               (error_middleware (FromService error),
                [ParseBillImage (buffer file) (originalname file)])
           | Inr parsedData \<Rightarrow>
               (case createBill up (billData (title_field req) parsedData now) of
                  Inl error \<Rightarrow>
                    (error_middleware (FromService error),
                     [ParseBillImage (buffer file) (originalname file),
                      CreateBill (billData (title_field req) parsedData now)])
                | Inr createdBill \<Rightarrow>
                    (\<lparr>res_status = 201,
                      res_json = JObj [(''message'', JStr ''Bill created successfully from parsed image''),
                                       (''billId'', JNum (bill_id createdBill)),
                                       (''parsedData'', json_of_receipt parsedData)]\<rparr>,
                     [ParseBillImage (buffer file) (originalname file),
                      CreateBill (billData (title_field req) parsedData now)]))))"

section \<open>Notions used in the properties\<close>

text \<open>
  All the violations of an object against the keys of a schema, as the words
  \<open>all violated-field messages\<close> read: the violation of every key that has one, then
  every key that is not allowed.
\<close>

definition all_violations :: "joi_lib \<Rightarrow> (string \<times> joi) list \<Rightarrow> (string \<times> json) list \<Rightarrow> detail list" where
  "all_violations lib ks kvs =
     concat (map (\<lambda>ks1. case validate_at lib [Key (fst ks1)] (snd ks1) (map_of kvs (fst ks1)) of
                           Err d \<Rightarrow> [d]
                         | Ok v \<Rightarrow> [])
                 ks)
     @ map (\<lambda>k. Detail [Key k] object_unknown (map_of kvs k)) (unknown_keys ks kvs)"

section \<open>Test data\<close>

text \<open>
  The values the repository's tests use (tests/billParser.test), and stand-ins for the
  two services and for the parts of the schema library that the model leaves open.
\<close>

definition mockParsedData :: ParsedReceipt where
  "mockParsedData =
     \<lparr>items = [\<lparr>name = ''Milk'', quantity = 1, price = 3.99\<rparr>], receipt_total = 3.99,
      currency = None, date = Some ''2025-03-15'', merchant = Some ''Grocery Store''\<rparr>"

definition undated_receipt :: ParsedReceipt where
  "undated_receipt =
     \<lparr>items = [\<lparr>name = ''Milk'', quantity = 1, price = 3.99\<rparr>], receipt_total = 3.99,
      currency = None, date = None, merchant = None\<rparr>"

definition march_15 :: Date where
  "march_15 =
     \<lparr>year = 2025, month = 3, day = 15, hours = 10, minutes = 30, seconds = 0, milliseconds = 0\<rparr>"

definition march_16 :: Date where
  "march_16 =
     \<lparr>year = 2025, month = 3, day = 16, hours = 10, minutes = 30, seconds = 0, milliseconds = 0\<rparr>"

fun key_text :: "path_elem \<Rightarrow> string" where
  "key_text (Key k) = k"
| "key_text (Index i) = ''[]''"

fun code_text :: "error_code \<Rightarrow> string" where
  "code_text any_required = '' is required''"
| "code_text object_unknown = '' is not allowed''"
| "code_text c = '' is not valid''"

definition decimal :: "string \<Rightarrow> nat" where
  "decimal s = foldl (\<lambda>n c. 10 * n + (of_char c - 48)) 0 s"

definition test_lib :: joi_lib where
  "test_lib =
     \<lparr>render = (\<lambda>d. concat (map key_text (path d)) @ code_text (code d)),
      coerce = (\<lambda>T s.
         if T = TNumber \<and> s \<noteq> [] \<and> list_all is_digit s then Converted (JNum (real (decimal s)))
         else if T = TBoolean \<and> s = ''true'' then Converted (JBool True)
         else if T = TBoolean \<and> s = ''false'' then Converted (JBool False)
         else Unchanged)\<rparr>"

definition failing_upstream :: "thrown \<Rightarrow> upstream" where
  "failing_upstream t =
     \<lparr>get_bill = (\<lambda>bid. Inl t), post_bill = (\<lambda>bill. Inl t), put_bill = (\<lambda>bid bill. Inl t),
      delete_bill = (\<lambda>bid. Inl t), post_parse_bill = (\<lambda>image filename. Inl t)\<rparr>"

definition mock_upstream :: upstream where
  "mock_upstream =
     \<lparr>get_bill = (\<lambda>bid. Inr (JObj [(''id'', JNum 1), (''title'', JStr ''Groceries'')])),
      post_bill = (\<lambda>bill. Inr \<lparr>bill_id = 4\<rparr>),
      put_bill = (\<lambda>bid bill. Inr (JObj [(''message'', JStr ''Bill updated'')])),
      delete_bill = (\<lambda>bid. Inr (JObj [(''message'', JStr ''Bill deleted'')])),
      post_parse_bill = (\<lambda>image filename. Inr mockParsedData)\<rparr>"

definition upstream_404 :: thrown where
  "upstream_404 =
     AxiosError (Some \<lparr>status = 404, data = JObj [(''error'', JStr ''no bill with this id'')]\<rparr>)
       True ''Request failed with status code 404''"

definition upstream_502 :: thrown where
  "upstream_502 =
     AxiosError (Some \<lparr>status = 502, data = JObj [(''error'', JStr ''bad gateway'')]\<rparr>)
       True ''Request failed with status code 502''"

definition rent_request :: bills_request where
  "rent_request = \<lparr>params_id = ''99'', body = JObj [(''title'', JStr ''Rent'')]\<rparr>"

definition test_image :: upload where
  "test_image =
     \<lparr>fieldname = ''image'', originalname = ''test.jpg'', mimetype = ''image/jpeg'',
      buffer = [0x74, 0x65, 0x73, 0x74]\<rparr>"

definition text_upload :: upload where
  "text_upload =
     \<lparr>fieldname = ''image'', originalname = ''notes.txt'', mimetype = ''text/plain'',
      buffer = [0x74, 0x65, 0x73, 0x74]\<rparr>"

definition oversized_image :: upload where
  "oversized_image =
     \<lparr>fieldname = ''image'', originalname = ''big.jpg'', mimetype = ''image/jpeg'',
      buffer = replicate 5242881 0\<rparr>"

definition total_request :: bills_request where
  "total_request =
     \<lparr>params_id = ''99'', body = JObj [(''title'', JStr ''Rent''), (''total'', JNum 5)]\<rparr>"

definition groceryParsedData :: ParsedReceipt where
  "groceryParsedData =
     \<lparr>items = [\<lparr>name = ''Milk'', quantity = 1, price = 3.99\<rparr>,
               \<lparr>name = ''Bread'', quantity = 1, price = 2.49\<rparr>],
      receipt_total = 6.48, currency = Some ''USD'', date = Some ''2025-03-15'',
      merchant = Some ''Grocery Store''\<rparr>"

definition grocery_upstream :: upstream where
  "grocery_upstream =
     \<lparr>get_bill = (\<lambda>bid. Inr (JObj [(''id'', JNum 1), (''title'', JStr ''Groceries'')])),
      post_bill = (\<lambda>bill. Inr \<lparr>bill_id = 3\<rparr>),
      put_bill = (\<lambda>bid bill. Inr (JObj [(''message'', JStr ''Bill updated'')])),
      delete_bill = (\<lambda>bid. Inr (JObj [(''message'', JStr ''Bill deleted'')])),
      post_parse_bill = (\<lambda>image filename. Inr groceryParsedData)\<rparr>"

definition grocery_request :: parser_request where
  "grocery_request = \<lparr>file_part = Some test_image, title_field = Some ''Grocery Receipt''\<rparr>"

definition no_file_request :: parser_request where
  "no_file_request = \<lparr>file_part = None, title_field = Some ''Grocery Receipt''\<rparr>"

section \<open>Properties\<close>

subsection \<open>Dates\<close>

lemma digit_char_is_digit: "is_digit (digit_char n)"
proof -
  have "n mod 10 = 0 \<or> n mod 10 = 1 \<or> n mod 10 = 2 \<or> n mod 10 = 3 \<or> n mod 10 = 4
      \<or> n mod 10 = 5 \<or> n mod 10 = 6 \<or> n mod 10 = 7 \<or> n mod 10 = 8 \<or> n mod 10 = 9"
    by presburger
  then show ?thesis unfolding digit_char_def is_digit_def by auto
qed

lemma digits_all_digit: "list_all is_digit (digits w n)"
  by (induction w n rule: digits.induct) (simp_all add: digit_char_is_digit)

lemma length_digits: "length (digits w n) = w"
  by (induction w n rule: digits.induct) simp_all

lemma is_digit_not_T: "is_digit c \<Longrightarrow> c \<noteq> CHR ''T''"
  by (auto simp: is_digit_def)

lemma takeWhile_digits:
  "list_all is_digit xs \<Longrightarrow>
   takeWhile (\<lambda>c. c \<noteq> CHR ''T'') (xs @ ys) = xs @ takeWhile (\<lambda>c. c \<noteq> CHR ''T'') ys"
  by (induction xs) (auto simp: is_digit_not_T)

lemma split_T_0_toISOString:
  "0 \<le> year d \<Longrightarrow> year d \<le> 9999 \<Longrightarrow>
   split_T_0 (toISOString d) =
     digits 4 (nat (year d)) @ ''-'' @ digits 2 (month d) @ ''-'' @ digits 2 (day d)"
  by (simp add: split_T_0_def toISOString_def year_string_def takeWhile_digits
      digits_all_digit del: digits.simps)

lemma due_date_pattern_digits:
  "due_date_pattern (digits 4 y @ ''-'' @ digits 2 m @ ''-'' @ digits 2 d)"
  unfolding due_date_pattern_def
  by (simp add: length_digits digits_all_digit nth_append del: digits.simps)

lemma digits_2: "digits 2 n = [digit_char (n div 10), digit_char n]"
proof -
  have "digits (Suc (Suc 0)) n = [digit_char (n div 10), digit_char n]" by simp
  then show ?thesis by (simp only: numeral_2_eq_2)
qed

lemma digits_4:
  "digits 4 n = [digit_char (n div 10 div 10 div 10), digit_char (n div 10 div 10),
                 digit_char (n div 10), digit_char n]"
proof -
  have "(4::nat) = Suc (Suc (Suc (Suc 0)))" by simp
  moreover have "digits (Suc (Suc (Suc (Suc 0)))) n =
     [digit_char (n div 10 div 10 div 10), digit_char (n div 10 div 10),
      digit_char (n div 10), digit_char n]" by simp
  ultimately show ?thesis by (simp only:)
qed

lemma today_march_15: "split_T_0 (toISOString march_15) = ''2025-03-15''"
  using split_T_0_toISOString [of march_15]
  by (simp add: march_15_def digits_2 digits_4 digit_char_def del: digits.simps)

lemma today_march_16: "split_T_0 (toISOString march_16) = ''2025-03-16''"
  using split_T_0_toISOString [of march_16]
  by (simp add: march_16_def digits_2 digits_4 digit_char_def del: digits.simps)

subsection \<open>The bill built from a parsed receipt\<close>

text \<open>
  C1, as the claim states it, fails: a \<open>title\<close> field that is supplied and empty is
  not the title of the bill. The handler takes \<open>req.body.title || '...'\<close>, and the
  empty string is falsy.
\<close>

theorem billData_empty_title_counterexample:
  "get_property (billData (Some []) mockParsedData march_15) ''title'' \<noteq> Some (JStr [])"
  by (simp add: billData_def title_of_def or_else_def)

text \<open>
  C1, amended: for every parsed receipt, every title field and every instant, the bill
  has the title supplied when it is supplied and not empty, and
  \<open>Bill from receipt image\<close> otherwise; the description \<open>Created from receipt: \<close>
  followed by the merchant when it is present and not empty, and by
  \<open>Unknown merchant\<close> otherwise; the due date \<open>parsed.date\<close> when it is present and
  not empty (otherwise the date part of the current instant); \<open>paid\<close> false; and one
  item \<open>{name, description: "", amount: price, quantity}\<close> for each item of the receipt,
  in order. On the receipt of the test, with no title, the bill is the one the claim
  gives.
\<close>

theorem billData_mapping:
  "billData body_title parsedData now =
     JObj [(''title'', JStr (case body_title of
                               None \<Rightarrow> ''Bill from receipt image''
                             | Some t \<Rightarrow> if t = [] then ''Bill from receipt image'' else t)),
           (''description'', JStr (''Created from receipt: '' @
                              (case merchant parsedData of
                                 None \<Rightarrow> ''Unknown merchant''
                               | Some m \<Rightarrow> if m = [] then ''Unknown merchant'' else m))),
           (''due_date'', JStr (case date parsedData of
                                  None \<Rightarrow> split_T_0 (toISOString now)
                                | Some d \<Rightarrow> if d = [] then split_T_0 (toISOString now) else d)),
           (''paid'', JBool False),
           (''items'', JArr (map (\<lambda>item. JObj [(''name'', JStr (name item)),
                                                (''description'', JStr []),
                                                (''amount'', JNum (price item)),
                                                (''quantity'', JNum (quantity item))])
                                 (items parsedData)))]
   \<and> billData None mockParsedData now =
     JObj [(''title'', JStr ''Bill from receipt image''),
           (''description'', JStr ''Created from receipt: Grocery Store''),
           (''due_date'', JStr ''2025-03-15''),
           (''paid'', JBool False),
           (''items'', JArr [JObj [(''name'', JStr ''Milk''), (''description'', JStr []),
                                   (''amount'', JNum 3.99), (''quantity'', JNum 1)]])]"
proof
  show "billData body_title parsedData now =
     JObj [(''title'', JStr (case body_title of
                               None \<Rightarrow> ''Bill from receipt image''
                             | Some t \<Rightarrow> if t = [] then ''Bill from receipt image'' else t)),
           (''description'', JStr (''Created from receipt: '' @
                              (case merchant parsedData of
                                 None \<Rightarrow> ''Unknown merchant''
                               | Some m \<Rightarrow> if m = [] then ''Unknown merchant'' else m))),
           (''due_date'', JStr (case date parsedData of
                                  None \<Rightarrow> split_T_0 (toISOString now)
                                | Some d \<Rightarrow> if d = [] then split_T_0 (toISOString now) else d)),
           (''paid'', JBool False),
           (''items'', JArr (map (\<lambda>item. JObj [(''name'', JStr (name item)),
                                                (''description'', JStr []),
                                                (''amount'', JNum (price item)),
                                                (''quantity'', JNum (quantity item))])
                                 (items parsedData)))]"
    unfolding billData_def title_of_def or_else_def bill_item_def by simp
next
  show "billData None mockParsedData now =
     JObj [(''title'', JStr ''Bill from receipt image''),
           (''description'', JStr ''Created from receipt: Grocery Store''),
           (''due_date'', JStr ''2025-03-15''),
           (''paid'', JBool False),
           (''items'', JArr [JObj [(''name'', JStr ''Milk''), (''description'', JStr []),
                                   (''amount'', JNum 3.99), (''quantity'', JNum 1)]])]"
    by (simp add: billData_def mockParsedData_def title_of_def or_else_def bill_item_def)
qed

text \<open>
  C7, as the claim states it, fails: two runs on the same receipt (one with no date) and
  the same title, a day apart, give different bills. The handler reads the clock.
\<close>

theorem billData_clock_counterexample:
  "billData None undated_receipt march_15 \<noteq> billData None undated_receipt march_16"
  by (simp add: billData_def undated_receipt_def or_else_def today_march_15 today_march_16)

text \<open>
  C7, amended: the bill is a function of the receipt, the title and the current instant,
  defined for all of them, an object with the five keys of a bill. When the receipt has a
  date that is not empty, the bill does not depend on the instant. When the date is
  absent or empty, and the current year is between 0 and 9999, the due date is the
  current UTC date as \<open>YYYY-MM-DD\<close>.
\<close>

theorem billData_clock:
  "(\<exists>kvs. billData t p now = JObj kvs
          \<and> map fst kvs = [''title'', ''description'', ''due_date'', ''paid'', ''items''])
   \<and> (date p = Some d \<and> d \<noteq> [] \<longrightarrow> billData t p now = billData t p now')
   \<and> ((date p = None \<or> date p = Some []) \<and> 0 \<le> year now \<and> year now \<le> 9999 \<longrightarrow>
        get_property (billData t p now) ''due_date'' =
          Some (JStr (digits 4 (nat (year now)) @ ''-'' @ digits 2 (month now) @ ''-''
                      @ digits 2 (day now)))
        \<and> due_date_pattern (digits 4 (nat (year now)) @ ''-'' @ digits 2 (month now) @ ''-''
                            @ digits 2 (day now)))"
proof (intro conjI impI)
  show "\<exists>kvs. billData t p now = JObj kvs
          \<and> map fst kvs = [''title'', ''description'', ''due_date'', ''paid'', ''items'']"
    by (simp add: billData_def)
next
  assume "date p = Some d \<and> d \<noteq> []"
  then show "billData t p now = billData t p now'"
    by (simp add: billData_def or_else_def)
next
  assume a: "(date p = None \<or> date p = Some []) \<and> 0 \<le> year now \<and> year now \<le> 9999"
  then have "or_else (date p) (split_T_0 (toISOString now)) = split_T_0 (toISOString now)"
    by (auto simp: or_else_def)
  with a show "get_property (billData t p now) ''due_date'' =
          Some (JStr (digits 4 (nat (year now)) @ ''-'' @ digits 2 (month now) @ ''-''
                      @ digits 2 (day now)))"
    by (simp add: billData_def split_T_0_toISOString del: digits.simps)
next
  show "due_date_pattern (digits 4 (nat (year now)) @ ''-'' @ digits 2 (month now) @ ''-''
                            @ digits 2 (day now))"
    by (rule due_date_pattern_digits)
qed

theorem billData_clock_witness:
  "billData None mockParsedData march_15 = billData None mockParsedData march_16
   \<and> get_property (billData None undated_receipt march_15) ''due_date''
       = Some (JStr ''2025-03-15'')"
proof
  have "date mockParsedData = Some ''2025-03-15'' \<and> ''2025-03-15'' \<noteq> []"
    by (simp add: mockParsedData_def)
  with billData_clock [of None mockParsedData march_15 "''2025-03-15''" march_16]
  show "billData None mockParsedData march_15 = billData None mockParsedData march_16"
    by blast
next
  have h: "(date undated_receipt = None \<or> date undated_receipt = Some [])
        \<and> 0 \<le> year march_15 \<and> year march_15 \<le> 9999"
    by (simp add: undated_receipt_def march_15_def)
  have "digits 4 (nat (year march_15)) @ ''-'' @ digits 2 (month march_15) @ ''-''
          @ digits 2 (day march_15) = ''2025-03-15''"
    by (simp add: march_15_def digits_2 digits_4 digit_char_def del: digits.simps)
  with h billData_clock [of None undated_receipt march_15 "[]" march_15]
  show "get_property (billData None undated_receipt march_15) ''due_date''
       = Some (JStr ''2025-03-15'')"
    by simp
qed

subsection \<open>Validation and normalized errors\<close>

lemmas schema_defs =
  billSchema_def idParamSchema_def joi_object_def joi_string_def joi_number_def joi_boolean_def
  joi_array_items_def joi_pattern_def joi_integer_def joi_min_def

lemma error_field_or_default_eq:
  "error_field_or_default d =
     (case get_property d ''error'' of
        None \<Rightarrow> JStr ''Service error''
      | Some e \<Rightarrow> if truthy e then e else JStr ''Service error'')"
  by (cases d) (simp_all add: error_field_or_default_def)

lemma truthy_error_field_or_default: "truthy (error_field_or_default d)"
  by (simp add: error_field_or_default_def split: option.splits)

lemma truthy_message: "truthy (message (handleServiceError t))"
  by (cases t rule: handleServiceError.cases) (simp_all add: truthy_error_field_or_default)

lemma object_result_unknown:
  "unknown_keys ks kvs \<noteq> [] \<Longrightarrow> \<exists>d. object_result p ks kvs rs = Err d"
  by (cases "unknown_keys ks kvs") (simp_all add: object_result_def split: sum.splits)

lemma validate_at_object:
  "validate_at lib p (Schema TObject req [] dv [] it ks) (Some (JObj kvs)) =
     object_result p ks kvs
       (map (\<lambda>ks1. (fst ks1, validate_at lib (p @ [Key (fst ks1)]) (snd ks1) (map_of kvs (fst ks1)))) ks)"
  by (simp add: apply_coerce_def)

lemma unknown_key_rejected:
  assumes "k \<in> fst ` set kvs" and "k \<notin> fst ` set ks"
  shows "\<exists>d. validate_at lib p (joi_object ks) (Some (JObj kvs)) = Err d"
proof -
  from assms have "k \<in> set (unknown_keys ks kvs)" by (auto simp: unknown_keys_def)
  then have "unknown_keys ks kvs \<noteq> []" by auto
  then show ?thesis
    unfolding joi_object_def validate_at_object by (rule object_result_unknown)
qed

lemma validate_Err:
  "validate_at lib [] schema (Some v) = Err d \<Longrightarrow>
   validate lib schema v = Some \<lparr>res_status = 400, res_json = JObj [(''error'', JStr (render lib d))]\<rparr>"
  by (simp add: validate_def schema_validate_def)

lemma missing_title:
  assumes "map_of kvs ''title'' = None"
  shows "validate_at lib [] billSchema (Some (JObj kvs)) = Err (Detail [Key ''title''] any_required None)"
  using assms
  by (simp add: schema_defs validate_at_object object_result_def apply_coerce_def)

lemma test_id_valid: "validate test_lib idParamSchema (params rent_request) = None"
  by (simp add: validate_def schema_validate_def schema_defs params_def rent_request_def
      object_result_def unknown_keys_def apply_coerce_def test_lib_def is_digit_def decimal_def)

lemma rent_body_valid: "validate lib billSchema (JObj [(''title'', JStr ''Rent'')]) = None"
  by (simp add: validate_def schema_validate_def schema_defs object_result_def unknown_keys_def
      apply_coerce_def)

lemma rent_body_value:
  "v_value (schema_validate lib billSchema (JObj [(''title'', JStr ''Rent'')])) =
     Some (JObj [(''title'', JStr ''Rent''), (''paid'', JBool False)])"
  by (simp add: schema_validate_def schema_defs object_result_def unknown_keys_def
      apply_coerce_def)

subsection \<open>The error normalizer\<close>

text \<open>
  C2, as the claim states it, fails: when the upstream's response body has an \<open>error\<close>
  field that is present and empty, the message is not that field. The normalizer tests
  \<open>data && data.error\<close>, and a falsy field is replaced by the default.
\<close>

theorem handleServiceError_error_field_counterexample:
  "get_property (JObj [(''error'', JStr [])]) ''error'' = Some (JStr [])
   \<and> message (handleServiceError
        (AxiosError (Some \<lparr>status = 500, data = JObj [(''error'', JStr [])]\<rparr>) True
           ''Request failed with status code 500'')) \<noteq> JStr []"
  by (simp add: error_field_or_default_def)

text \<open>
  C2, amended: the normalizer gives one of three shapes. If the upstream responded, the
  status is that of the response, the message is the \<open>error\<close> field of the response
  body when that field is present and truthy and \<open>Service error\<close> otherwise, and the
  details are the response body. If the request was sent and no response arrived, the
  result is \<open>{503, Service unavailable, No response received from service}\<close>. In
  every other case it is \<open>{500, Error connecting to service}\<close> with the description of
  the underlying error as details.
\<close>

theorem handleServiceError_shapes:
  "handleServiceError (AxiosError (Some r) req msg) =
     \<lparr>statusCode = status r,
      message = (case get_property (data r) ''error'' of
                   None \<Rightarrow> JStr ''Service error''
                 | Some e \<Rightarrow> if truthy e then e else JStr ''Service error''),
      details = data r\<rparr>
   \<and> handleServiceError (AxiosError None True msg) =
     \<lparr>statusCode = 503, message = JStr ''Service unavailable'',
      details = JStr ''No response received from service''\<rparr>
   \<and> handleServiceError (AxiosError None False msg) =
     \<lparr>statusCode = 500, message = JStr ''Error connecting to service'', details = JStr msg\<rparr>
   \<and> handleServiceError (OtherError msg) =
     \<lparr>statusCode = 500, message = JStr ''Error connecting to service'', details = JStr msg\<rparr>
   \<and> handleServiceError (NotAnError str) =
     \<lparr>statusCode = 500, message = JStr ''Error connecting to service'', details = JStr str\<rparr>"
  by (simp add: error_field_or_default_eq)

subsection \<open>The bills routes when the upstream call fails\<close>

text \<open>
  C3: when the request passes validation and the upstream call of \<open>GET /bills/{id}\<close>,
  \<open>PUT /bills/{id}\<close> or \<open>DELETE /bills/{id}\<close> fails, with a normalized error whose
  status is 404 the response is 404 with body \<open>{error: "Bill not found"}\<close>, whatever
  the upstream's message; with any other normalized error the response has the error's
  own status and the body \<open>{error: message}\<close>. The status of the error is not 0: no
  HTTP response has that status. One upstream call is made.
\<close>

theorem bill_not_found_override:
  assumes "statusCode (handleServiceError t) \<noteq> 0"
  shows
  "(validate lib idParamSchema (params req) = None \<and> get_bill up (params_id req) = Inl t \<longrightarrow>
      get_bill_route lib up req =
        (if statusCode (handleServiceError t) = 404
         then \<lparr>res_status = 404, res_json = JObj [(''error'', JStr ''Bill not found'')]\<rparr>
         else \<lparr>res_status = statusCode (handleServiceError t),
               res_json = JObj [(''error'', message (handleServiceError t))]\<rparr>,
         [GetBillById (params_id req)]))
   \<and> (validate lib idParamSchema (params req) = None \<and> validate lib billSchema (body req) = None
       \<and> put_bill up (params_id req) (body req) = Inl t \<longrightarrow>
      put_bill_route lib up req =
        (if statusCode (handleServiceError t) = 404
         then \<lparr>res_status = 404, res_json = JObj [(''error'', JStr ''Bill not found'')]\<rparr>
         else \<lparr>res_status = statusCode (handleServiceError t),
               res_json = JObj [(''error'', message (handleServiceError t))]\<rparr>,
         [UpdateBill (params_id req) (body req)]))
   \<and> (validate lib idParamSchema (params req) = None \<and> delete_bill up (params_id req) = Inl t \<longrightarrow>
      delete_bill_route lib up req =
        (if statusCode (handleServiceError t) = 404
         then \<lparr>res_status = 404, res_json = JObj [(''error'', JStr ''Bill not found'')]\<rparr>
         else \<lparr>res_status = statusCode (handleServiceError t),
               res_json = JObj [(''error'', message (handleServiceError t))]\<rparr>,
         [DeleteBill (params_id req)]))"
proof (intro conjI impI)
  assume "validate lib idParamSchema (params req) = None \<and> get_bill up (params_id req) = Inl t"
  with assms show "get_bill_route lib up req =
        (if statusCode (handleServiceError t) = 404
         then \<lparr>res_status = 404, res_json = JObj [(''error'', JStr ''Bill not found'')]\<rparr>
         else \<lparr>res_status = statusCode (handleServiceError t),
               res_json = JObj [(''error'', message (handleServiceError t))]\<rparr>,
         [GetBillById (params_id req)])"
    by (simp add: get_bill_route_def getBillById_def normalized_def bill_not_found_def
        truthy_message)
next
  assume "validate lib idParamSchema (params req) = None \<and> validate lib billSchema (body req) = None
       \<and> put_bill up (params_id req) (body req) = Inl t"
  with assms show "put_bill_route lib up req =
        (if statusCode (handleServiceError t) = 404
         then \<lparr>res_status = 404, res_json = JObj [(''error'', JStr ''Bill not found'')]\<rparr>
         else \<lparr>res_status = statusCode (handleServiceError t),
               res_json = JObj [(''error'', message (handleServiceError t))]\<rparr>,
         [UpdateBill (params_id req) (body req)])"
    by (simp add: put_bill_route_def updateBill_def normalized_def bill_not_found_def
        truthy_message)
next
  assume "validate lib idParamSchema (params req) = None \<and> delete_bill up (params_id req) = Inl t"
  with assms show "delete_bill_route lib up req =
        (if statusCode (handleServiceError t) = 404
         then \<lparr>res_status = 404, res_json = JObj [(''error'', JStr ''Bill not found'')]\<rparr>
         else \<lparr>res_status = statusCode (handleServiceError t),
               res_json = JObj [(''error'', message (handleServiceError t))]\<rparr>,
         [DeleteBill (params_id req)])"
    by (simp add: delete_bill_route_def deleteBill_def normalized_def bill_not_found_def
        truthy_message)
qed

theorem bill_not_found_override_witness:
  "get_bill_route test_lib (failing_upstream upstream_404) rent_request =
     (\<lparr>res_status = 404, res_json = JObj [(''error'', JStr ''Bill not found'')]\<rparr>,
      [GetBillById ''99''])
   \<and> put_bill_route test_lib (failing_upstream upstream_404) rent_request =
     (\<lparr>res_status = 404, res_json = JObj [(''error'', JStr ''Bill not found'')]\<rparr>,
      [UpdateBill ''99'' (JObj [(''title'', JStr ''Rent'')])])
   \<and> delete_bill_route test_lib (failing_upstream upstream_404) rent_request =
     (\<lparr>res_status = 404, res_json = JObj [(''error'', JStr ''Bill not found'')]\<rparr>,
      [DeleteBill ''99''])
   \<and> get_bill_route test_lib (failing_upstream upstream_502) rent_request =
     (\<lparr>res_status = 502, res_json = JObj [(''error'', JStr ''bad gateway'')]\<rparr>,
      [GetBillById ''99''])"
proof -
  have s4: "statusCode (handleServiceError upstream_404) \<noteq> 0"
    and s5: "statusCode (handleServiceError upstream_502) \<noteq> 0"
    by (simp_all add: upstream_404_def upstream_502_def)
  have b: "validate test_lib billSchema (body rent_request) = None"
    by (simp add: rent_request_def rent_body_valid)
  have u: "get_bill (failing_upstream t) (params_id rent_request) = Inl t"
    "put_bill (failing_upstream t) (params_id rent_request) (body rent_request) = Inl t"
    "delete_bill (failing_upstream t) (params_id rent_request) = Inl t" for t
    by (simp_all add: failing_upstream_def)
  have e4: "handleServiceError upstream_404 =
      \<lparr>statusCode = 404, message = JStr ''no bill with this id'',
       details = JObj [(''error'', JStr ''no bill with this id'')]\<rparr>"
    and e5: "handleServiceError upstream_502 =
      \<lparr>statusCode = 502, message = JStr ''bad gateway'',
       details = JObj [(''error'', JStr ''bad gateway'')]\<rparr>"
    by (simp_all add: upstream_404_def upstream_502_def error_field_or_default_def)
  have r: "params_id rent_request = ''99''" "body rent_request = JObj [(''title'', JStr ''Rent'')]"
    by (simp_all add: rent_request_def)
  from bill_not_found_override [OF s4, of test_lib rent_request "failing_upstream upstream_404"]
    bill_not_found_override [OF s5, of test_lib rent_request "failing_upstream upstream_502"]
    test_id_valid b u
  show ?thesis by (simp add: e4 e5 r)
qed

subsection \<open>Requests rejected by validation\<close>

lemma validate_error_shape:
  "validate lib schema v = Some r \<Longrightarrow>
   \<exists>d. v_error (schema_validate lib schema v) = Some [d]
      \<and> r = \<lparr>res_status = 400, res_json = JObj [(''error'', JStr (render lib d))]\<rparr>"
  by (auto simp: validate_def schema_validate_def split: outcome.splits)

lemma validation_failure_answered:
  "v_error (schema_validate lib schema v) = Some dets \<Longrightarrow>
   validate lib schema v =
     Some \<lparr>res_status = 400,
           res_json = JObj [(''error'', JStr (join '', '' (map (render lib) dets)))]\<rparr>"
  by (simp add: validate_def)

lemma invalid_id_not_forwarded:
  "v_error (schema_validate lib idParamSchema (params req)) = Some dets \<Longrightarrow>
   get_bill_route lib up req =
     (\<lparr>res_status = 400,
       res_json = JObj [(''error'', JStr (join '', '' (map (render lib) dets)))]\<rparr>, [])
   \<and> put_bill_route lib up req =
     (\<lparr>res_status = 400,
       res_json = JObj [(''error'', JStr (join '', '' (map (render lib) dets)))]\<rparr>, [])
   \<and> delete_bill_route lib up req =
     (\<lparr>res_status = 400,
       res_json = JObj [(''error'', JStr (join '', '' (map (render lib) dets)))]\<rparr>, [])"
  by (simp add: get_bill_route_def put_bill_route_def delete_bill_route_def
      validation_failure_answered)

lemma invalid_body_not_forwarded:
  "v_error (schema_validate lib billSchema (body req)) = Some dets \<Longrightarrow>
   post_bill_route lib up req =
     (\<lparr>res_status = 400,
       res_json = JObj [(''error'', JStr (join '', '' (map (render lib) dets)))]\<rparr>, [])
   \<and> snd (put_bill_route lib up req) = []"
  by (simp add: post_bill_route_def put_bill_route_def validation_failure_answered
      split: option.splits)

lemma title_required:
  "map_of kvs ''title'' = None \<Longrightarrow>
   v_error (schema_validate lib billSchema (JObj kvs)) =
     Some [Detail [Key ''title''] any_required None]"
  by (simp add: schema_validate_def missing_title)

lemma total_body_invalid:
  "validate test_lib billSchema (body total_request) =
     Some \<lparr>res_status = 400, res_json = JObj [(''error'', JStr ''total is not allowed'')]\<rparr>"
  by (simp add: validate_def schema_validate_def schema_defs total_request_def
      object_result_def unknown_keys_def apply_coerce_def test_lib_def)

lemma total_id_valid: "validate test_lib idParamSchema (params total_request) = None"
  by (simp add: validate_def schema_validate_def schema_defs params_def total_request_def
      object_result_def unknown_keys_def apply_coerce_def test_lib_def is_digit_def decimal_def)

text \<open>
  C5 does not hold of the code. The body \<open>{paid: 5}\<close> violates two fields: \<open>title\<close> is
  required, and \<open>paid\<close> is not a boolean. The request is answered with 400 and no
  upstream call is made, but the \<open>error\<close> of the response is the message of the first
  violation alone, not the comma-joined list of the messages of all violated fields. The
  middleware joins the messages of all the \<open>details\<close> that \<open>schema.validate\<close> reports,
  and calls it with the library's default options, under which validation stops at the
  first violation: the list it joins never has a second message.
\<close>

theorem first_violation_only:
  "post_bill_route lib up \<lparr>params_id = pid, body = JObj [(''paid'', JNum 5)]\<rparr> =
     (\<lparr>res_status = 400,
       res_json = JObj [(''error'',
         JStr (render lib (Detail [Key ''title''] any_required None)))]\<rparr>, [])
   \<and> all_violations lib (children billSchema) [(''paid'', JNum 5)] =
     [Detail [Key ''title''] any_required None,
      Detail [Key ''paid''] boolean_base (Some (JNum 5))]
   \<and> join '', '' (map (render lib)
         (all_violations lib (children billSchema) [(''paid'', JNum 5)]))
       \<noteq> render lib (Detail [Key ''title''] any_required None)"
proof -
  have v: "v_error (schema_validate lib billSchema (JObj [(''paid'', JNum 5)])) =
       Some [Detail [Key ''title''] any_required None]"
    by (rule title_required) simp
  have r: "post_bill_route lib up \<lparr>params_id = pid, body = JObj [(''paid'', JNum 5)]\<rparr> =
     (\<lparr>res_status = 400,
       res_json = JObj [(''error'',
         JStr (render lib (Detail [Key ''title''] any_required None)))]\<rparr>, [])"
    using invalid_body_not_forwarded
      [of lib "\<lparr>params_id = pid, body = JObj [(''paid'', JNum 5)]\<rparr>"
          "[Detail [Key ''title''] any_required None]" up] v
    by simp
  have a: "all_violations lib (children billSchema) [(''paid'', JNum 5)] =
     [Detail [Key ''title''] any_required None,
      Detail [Key ''paid''] boolean_base (Some (JNum 5))]"
    by (simp add: all_violations_def schema_defs unknown_keys_def apply_coerce_def)
  show ?thesis by (simp add: r a)
qed

text \<open>
  C10: a bill payload with a top-level key outside the bill schema (\<open>title\<close>,
  \<open>description\<close>, \<open>due_date\<close>, \<open>paid\<close>, \<open>items\<close>) is rejected by validation with
  400, by \<open>POST /bills\<close> and by \<open>PUT /bills/{id}\<close>, and no upstream call is made: the
  key is neither stripped nor forwarded.
\<close>

theorem unknown_field_rejected:
  assumes "body req = JObj kvs" and "k \<in> fst ` set kvs"
    and "k \<notin> {''title'', ''description'', ''due_date'', ''paid'', ''items''}"
  shows "\<exists>r. res_status r = 400
           \<and> validate lib billSchema (body req) = Some r
           \<and> post_bill_route lib up req = (r, [])
           \<and> (\<exists>r'. res_status r' = 400 \<and> put_bill_route lib up req = (r', []))"
proof -
  have "k \<notin> fst ` set (children billSchema)"
    using assms(3) by (simp add: schema_defs)
  from unknown_key_rejected [OF assms(2) this] obtain d where
    "validate_at lib [] billSchema (Some (body req)) = Err d"
    unfolding billSchema_def assms(1) by (auto simp: joi_object_def)
  from validate_Err [OF this] obtain r where
    r: "validate lib billSchema (body req) = Some r" "res_status r = 400" by simp
  have "\<exists>r'. res_status r' = 400 \<and> put_bill_route lib up req = (r', [])"
  proof (cases "validate lib idParamSchema (params req)")
    case None
    with r show ?thesis by (simp add: put_bill_route_def)
  next
    case (Some r0)
    from validate_error_shape [OF Some] have "res_status r0 = 400" by auto
    with Some show ?thesis by (simp add: put_bill_route_def)
  qed
  with r show ?thesis by (simp add: post_bill_route_def)
qed

theorem unknown_field_rejected_witness:
  "post_bill_route test_lib mock_upstream total_request =
     (\<lparr>res_status = 400, res_json = JObj [(''error'', JStr ''total is not allowed'')]\<rparr>, [])
   \<and> put_bill_route test_lib mock_upstream total_request =
     (\<lparr>res_status = 400, res_json = JObj [(''error'', JStr ''total is not allowed'')]\<rparr>, [])"
proof -
  have b: "body total_request = JObj [(''title'', JStr ''Rent''), (''total'', JNum 5)]"
    by (simp add: total_request_def)
  have k: "''total'' \<in> fst ` set [(''title'', JStr ''Rent''), (''total'', JNum 5)]" by simp
  have n: "''total'' \<notin> {''title'', ''description'', ''due_date'', ''paid'', ''items''}" by simp
  from unknown_field_rejected [OF b k n, of test_lib mock_upstream]
  show ?thesis
    by (auto simp: total_body_invalid total_id_valid put_bill_route_def)
qed

text \<open>
  C8 does not hold of the code. The body \<open>{title: "Rent"}\<close> is valid, and the value that
  \<open>schema.validate\<close> returns for it has \<open>paid: false\<close>, the declared default; the
  middleware reads only \<open>error\<close> from that result, and the handlers pass
  \<open>req.body\<close> on as it came: the payload of \<open>createBill\<close> and of \<open>updateBill\<close> has no
  \<open>paid\<close>.
\<close>

theorem paid_default_not_forwarded:
  "validate lib billSchema (body rent_request) = None
   \<and> v_value (schema_validate lib billSchema (body rent_request)) =
       Some (JObj [(''title'', JStr ''Rent''), (''paid'', JBool False)])
   \<and> snd (post_bill_route lib up rent_request) = [CreateBill (JObj [(''title'', JStr ''Rent'')])]
   \<and> snd (put_bill_route test_lib up rent_request) =
       [UpdateBill ''99'' (JObj [(''title'', JStr ''Rent'')])]
   \<and> get_property (JObj [(''title'', JStr ''Rent'')]) ''paid'' = None"
proof -
  have b: "body rent_request = JObj [(''title'', JStr ''Rent'')]"
    and i: "params_id rent_request = ''99''"
    by (simp_all add: rent_request_def)
  have v: "validate lib billSchema (body rent_request) = None" for lib
    by (simp add: b rent_body_valid)
  have "snd (post_bill_route lib up rent_request) = [CreateBill (JObj [(''title'', JStr ''Rent'')])]"
    by (simp add: post_bill_route_def b rent_body_valid split: sum.splits)
  moreover have "snd (put_bill_route test_lib up rent_request) =
       [UpdateBill ''99'' (JObj [(''title'', JStr ''Rent'')])]"
    by (simp add: put_bill_route_def test_id_valid b i rent_body_valid split: sum.splits)
  ultimately show ?thesis
    by (simp add: v) (simp add: b rent_body_value)
qed

subsection \<open>The parser routes\<close>

text \<open>
  C6: a request to \<open>POST /parser/parse-bill\<close> or \<open>POST /parser/create-bill-from-image\<close>
  with no attached file is answered with 400 and the body
  \<open>{error: "No image file provided"}\<close>, and no upstream call is made: the parser client
  is not invoked.
\<close>

theorem no_image_file_provided:
  assumes "file_part req = None"
  shows "parse_bill_route up req =
           (\<lparr>res_status = 400, res_json = JObj [(''error'', JStr ''No image file provided'')]\<rparr>, [])
       \<and> create_bill_from_image_route up now req =
           (\<lparr>res_status = 400, res_json = JObj [(''error'', JStr ''No image file provided'')]\<rparr>, [])"
  using assms
  by (simp add: parse_bill_route_def create_bill_from_image_route_def upload_single_def
      no_image_file_def)

theorem no_image_file_provided_witness:
  "parse_bill_route mock_upstream no_file_request =
     (\<lparr>res_status = 400, res_json = JObj [(''error'', JStr ''No image file provided'')]\<rparr>, [])
   \<and> create_bill_from_image_route mock_upstream march_15 no_file_request =
     (\<lparr>res_status = 400, res_json = JObj [(''error'', JStr ''No image file provided'')]\<rparr>, [])"
proof -
  have "file_part no_file_request = None" by (simp add: no_file_request_def)
  from no_image_file_provided [OF this] show ?thesis .
qed

text \<open>
  C9 does not hold of the code. An upload whose media type is not an image type, and an
  image of more than 5 MiB, are rejected before any upstream call, but with status 500:
  the error of the file filter and the error of the size limit have no \<open>statusCode\<close>,
  so the error handling middleware answers with its default.
\<close>

theorem rejected_upload_status:
  "parse_bill_route up \<lparr>file_part = Some text_upload, title_field = None\<rparr> =
     (\<lparr>res_status = 500, res_json = JObj [(''error'', JStr ''Only image files are allowed'')]\<rparr>, [])
   \<and> create_bill_from_image_route up now \<lparr>file_part = Some text_upload, title_field = None\<rparr> =
     (\<lparr>res_status = 500, res_json = JObj [(''error'', JStr ''Only image files are allowed'')]\<rparr>, [])
   \<and> parse_bill_route up \<lparr>file_part = Some oversized_image, title_field = None\<rparr> =
     (\<lparr>res_status = 500, res_json = JObj [(''error'', JStr ''File too large'')]\<rparr>, [])
   \<and> create_bill_from_image_route up now \<lparr>file_part = Some oversized_image, title_field = None\<rparr> =
     (\<lparr>res_status = 500, res_json = JObj [(''error'', JStr ''File too large'')]\<rparr>, [])"
  by (simp add: parse_bill_route_def create_bill_from_image_route_def upload_single_def
      fileFilter_def startsWith_def fileSize_limit_def text_upload_def oversized_image_def)

text \<open>
  C4: for a request to \<open>POST /parser/create-bill-from-image\<close> with an attached image
  file (in the field \<open>image\<close>, of an image media type, below the size limit), the
  handler calls \<open>parseBillImage\<close> first and then \<open>createBill\<close>, with the bill
  \<open>{title, description, due_date, paid: false, items}\<close> built from the parse result and
  the \<open>title\<close> field; when both succeed the response is 201 with the body
  \<open>{message, billId, parsedData}\<close>, \<open>billId\<close> the id that \<open>createBill\<close> returned and
  \<open>parsedData\<close> the receipt that the parser returned. When the parser call fails,
  \<open>createBill\<close> is not called.
\<close>

theorem create_bill_from_image_sequence:
  assumes "file_part req = Some file" and "fieldname file = ''image''"
    and "take 6 (mimetype file) = ''image/''" and "length (buffer file) < 5242880"
    and "payload =
      JObj [(''title'', JStr (case title_field req of
                                None \<Rightarrow> ''Bill from receipt image''
                              | Some t \<Rightarrow> if t = [] then ''Bill from receipt image'' else t)),
            (''description'', JStr (''Created from receipt: '' @
                               (case merchant parsed of
                                  None \<Rightarrow> ''Unknown merchant''
                                | Some m \<Rightarrow> if m = [] then ''Unknown merchant'' else m))),
            (''due_date'', JStr (case date parsed of
                                   None \<Rightarrow> split_T_0 (toISOString now)
                                 | Some d \<Rightarrow> if d = [] then split_T_0 (toISOString now) else d)),
            (''paid'', JBool False),
            (''items'', JArr (map (\<lambda>item. JObj [(''name'', JStr (name item)),
                                                 (''description'', JStr []),
                                                 (''amount'', JNum (price item)),
                                                 (''quantity'', JNum (quantity item))])
                                  (items parsed)))]"
    and "receipt =
      JObj ([(''items'', JArr (map (\<lambda>item. JObj [(''name'', JStr (name item)),
                                                   (''quantity'', JNum (quantity item)),
                                                   (''price'', JNum (price item))])
                                    (items parsed))),
             (''total'', JNum (receipt_total parsed))]
            @ (case currency parsed of None \<Rightarrow> [] | Some c \<Rightarrow> [(''currency'', JStr c)])
            @ (case date parsed of None \<Rightarrow> [] | Some d \<Rightarrow> [(''date'', JStr d)])
            @ (case merchant parsed of None \<Rightarrow> [] | Some m \<Rightarrow> [(''merchant'', JStr m)]))"
  shows
  "(post_parse_bill up (buffer file) (originalname file) = Inr parsed
    \<and> post_bill up payload = Inr created \<longrightarrow>
      create_bill_from_image_route up now req =
        (\<lparr>res_status = 201,
          res_json = JObj [(''message'', JStr ''Bill created successfully from parsed image''),
                           (''billId'', JNum (bill_id created)),
                           (''parsedData'', receipt)]\<rparr>,
         [ParseBillImage (buffer file) (originalname file), CreateBill payload]))
   \<and> (post_parse_bill up (buffer file) (originalname file) = Inl t \<longrightarrow>
      snd (create_bill_from_image_route up now req) =
        [ParseBillImage (buffer file) (originalname file)])"
proof -
  have six: "length ''image/'' = (6::nat)" by simp
  have sw: "startsWith (mimetype file) ''image/''"
    unfolding startsWith_def six using assms(3) .
  from assms(1,2,4) have u: "upload_single ''image'' req = Inr (Some file)"
    by (simp add: upload_single_def fileFilter_def sw fileSize_limit_def)
  have p: "billData (title_field req) parsed now = payload"
    unfolding assms(5) billData_def title_of_def or_else_def bill_item_def by simp
  have j: "json_of_receipt parsed = receipt"
    unfolding assms(6) json_of_receipt_def json_of_item_def optional_key_def by simp
  show ?thesis
    by (simp add: create_bill_from_image_route_def u p j parseBillImage_def createBill_def
        normalized_def)
qed

theorem create_bill_from_image_sequence_witness:
  "create_bill_from_image_route grocery_upstream march_15 grocery_request =
     (\<lparr>res_status = 201,
       res_json = JObj [(''message'', JStr ''Bill created successfully from parsed image''),
                        (''billId'', JNum 3),
                        (''parsedData'',
                           JObj [(''items'', JArr [JObj [(''name'', JStr ''Milk''),
                                                         (''quantity'', JNum 1),
                                                         (''price'', JNum 3.99)],
                                                   JObj [(''name'', JStr ''Bread''),
                                                         (''quantity'', JNum 1),
                                                         (''price'', JNum 2.49)]]),
                                 (''total'', JNum 6.48),
                                 (''currency'', JStr ''USD''),
                                 (''date'', JStr ''2025-03-15''),
                                 (''merchant'', JStr ''Grocery Store'')])]\<rparr>,
      [ParseBillImage [0x74, 0x65, 0x73, 0x74] ''test.jpg'',
       CreateBill (JObj [(''title'', JStr ''Grocery Receipt''),
                         (''description'', JStr ''Created from receipt: Grocery Store''),
                         (''due_date'', JStr ''2025-03-15''),
                         (''paid'', JBool False),
                         (''items'', JArr [JObj [(''name'', JStr ''Milk''), (''description'', JStr []),
                                                 (''amount'', JNum 3.99), (''quantity'', JNum 1)],
                                           JObj [(''name'', JStr ''Bread''), (''description'', JStr []),
                                                 (''amount'', JNum 2.49), (''quantity'', JNum 1)]])])])
   \<and> snd (create_bill_from_image_route (failing_upstream upstream_502) march_15 grocery_request) =
       [ParseBillImage [0x74, 0x65, 0x73, 0x74] ''test.jpg'']"
proof -
  let ?payload = "JObj [(''title'', JStr ''Grocery Receipt''),
                         (''description'', JStr ''Created from receipt: Grocery Store''),
                         (''due_date'', JStr ''2025-03-15''),
                         (''paid'', JBool False),
                         (''items'', JArr [JObj [(''name'', JStr ''Milk''), (''description'', JStr []),
                                                 (''amount'', JNum 3.99), (''quantity'', JNum 1)],
                                           JObj [(''name'', JStr ''Bread''), (''description'', JStr []),
                                                 (''amount'', JNum 2.49), (''quantity'', JNum 1)]])]"
  let ?receipt = "JObj [(''items'', JArr [JObj [(''name'', JStr ''Milk''),
                                                (''quantity'', JNum 1),
                                                (''price'', JNum 3.99)],
                                          JObj [(''name'', JStr ''Bread''),
                                                (''quantity'', JNum 1),
                                                (''price'', JNum 2.49)]]),
                        (''total'', JNum 6.48),
                        (''currency'', JStr ''USD''),
                        (''date'', JStr ''2025-03-15''),
                        (''merchant'', JStr ''Grocery Store'')]"
  have f: "file_part grocery_request = Some test_image" "fieldname test_image = ''image''"
    "take 6 (mimetype test_image) = ''image/''" "length (buffer test_image) < 5242880"
    by (simp_all add: grocery_request_def test_image_def)
  have p: "?payload =
      JObj [(''title'', JStr (case title_field grocery_request of
                                None \<Rightarrow> ''Bill from receipt image''
                              | Some t \<Rightarrow> if t = [] then ''Bill from receipt image'' else t)),
            (''description'', JStr (''Created from receipt: '' @
                               (case merchant groceryParsedData of
                                  None \<Rightarrow> ''Unknown merchant''
                                | Some m \<Rightarrow> if m = [] then ''Unknown merchant'' else m))),
            (''due_date'', JStr (case date groceryParsedData of
                                   None \<Rightarrow> split_T_0 (toISOString march_15)
                                 | Some d \<Rightarrow> if d = [] then split_T_0 (toISOString march_15) else d)),
            (''paid'', JBool False),
            (''items'', JArr (map (\<lambda>item. JObj [(''name'', JStr (name item)),
                                                 (''description'', JStr []),
                                                 (''amount'', JNum (price item)),
                                                 (''quantity'', JNum (quantity item))])
                                  (items groceryParsedData)))]"
    by (simp add: grocery_request_def groceryParsedData_def)
  have r: "?receipt =
      JObj ([(''items'', JArr (map (\<lambda>item. JObj [(''name'', JStr (name item)),
                                                   (''quantity'', JNum (quantity item)),
                                                   (''price'', JNum (price item))])
                                    (items groceryParsedData))),
             (''total'', JNum (receipt_total groceryParsedData))]
            @ (case currency groceryParsedData of None \<Rightarrow> [] | Some c \<Rightarrow> [(''currency'', JStr c)])
            @ (case date groceryParsedData of None \<Rightarrow> [] | Some d \<Rightarrow> [(''date'', JStr d)])
            @ (case merchant groceryParsedData of None \<Rightarrow> [] | Some m \<Rightarrow> [(''merchant'', JStr m)]))"
    by (simp add: groceryParsedData_def)
  have m: "post_parse_bill grocery_upstream (buffer test_image) (originalname test_image)
             = Inr groceryParsedData"
    "post_bill grocery_upstream ?payload = Inr \<lparr>bill_id = 3\<rparr>"
    "post_parse_bill (failing_upstream upstream_502) (buffer test_image) (originalname test_image)
             = Inl upstream_502"
    by (simp_all add: grocery_upstream_def failing_upstream_def)
  have b: "buffer test_image = [0x74, 0x65, 0x73, 0x74]" "originalname test_image = ''test.jpg''"
    by (simp_all add: test_image_def)
  from create_bill_from_image_sequence [OF f p r, of grocery_upstream "\<lparr>bill_id = 3\<rparr>"
        upstream_502]
      create_bill_from_image_sequence [OF f p r, of "failing_upstream upstream_502"
        "\<lparr>bill_id = 3\<rparr>" upstream_502]
      m
  show ?thesis by (simp add: b)
qed

end
